theory Spec2Isabelle
  imports Main
begin

text \<open>
  The core of the PolyglotUI plugin (\<open>code.ts\<close>): the slugifier and the two
  classifiers that make up the semantic key of a text element, the scan that stores
  keys and original texts in the plugin data of the nodes, and the handlers for
  preview, revert, apply, the metadata writes and clear. Each function of the source is
  a function here under its own name; what the handlers change of the host's document
  is a state passed in and handed back.
\<close>

section \<open>Strings\<close>

text \<open>
  A string is a list of 8-bit characters, read as the code units U+0000 to U+00FF.
  On that range \<open>toLowerCase\<close> maps A-Z and the Latin-1 capitals (U+00C0 to U+00DE,
  without the multiplication sign U+00D7) to the letter 32 places further on, the class
  \<open>\w\<close> of a regular expression is the ASCII letters, the digits and the underscore,
  and the class \<open>\s\<close> is tab, line feed, vertical tab, form feed, carriage return,
  space and the no-break space U+00A0.
\<close>

definition toLowerChar :: "char \<Rightarrow> char" where
  "toLowerChar c =
     (let n = (of_char c :: nat)
      in if (65 \<le> n \<and> n \<le> 90) \<or> (192 \<le> n \<and> n \<le> 222 \<and> n \<noteq> 215)
         then char_of (n + 32) else c)"

definition toLowerCase :: "string \<Rightarrow> string" where
  "toLowerCase s = map toLowerChar s"

text \<open>
  \<open>toUpperCase\<close> on the same range: a-z and the Latin-1 small letters go 32 places
  back, the sharp s becomes SS. The capitals of U+00B5 and U+00FF lie outside the
  range; the model leaves these two characters as they are.
\<close>

definition toUpperChar :: "char \<Rightarrow> string" where
  "toUpperChar c =
     (let n = (of_char c :: nat)
      in if (97 \<le> n \<and> n \<le> 122) \<or> (224 \<le> n \<and> n \<le> 254 \<and> n \<noteq> 247)
         then [char_of (n - 32)]
         else if n = 223 then ''SS'' else [c])"

definition toUpperCase :: "string \<Rightarrow> string" where
  "toUpperCase s = concat (map toUpperChar s)"

definition isWordChar :: "char \<Rightarrow> bool" where
  "isWordChar c =
     (let n = (of_char c :: nat)
      in (48 \<le> n \<and> n \<le> 57) \<or> (65 \<le> n \<and> n \<le> 90) \<or> (97 \<le> n \<and> n \<le> 122) \<or> n = 95)"

definition isSpace :: "char \<Rightarrow> bool" where
  "isSpace c =
     (let n = (of_char c :: nat)
      in (9 \<le> n \<and> n \<le> 13) \<or> n = 32 \<or> n = 160)"

text \<open>\<open>s.replace(/[cls]+/g, '.')\<close>: every maximal run of characters of the class
  becomes one dot.\<close>

function replaceRuns :: "(char \<Rightarrow> bool) \<Rightarrow> string \<Rightarrow> string" where
  "replaceRuns p [] = []"
| "replaceRuns p (c # cs) =
     (if p c then CHR ''.'' # replaceRuns p (dropWhile p cs) else c # replaceRuns p cs)"
  by pat_completeness auto
termination
  by (relation "measure (\<lambda>(p, s). length s)") (auto simp: less_Suc_eq_le length_dropWhile_le)

text \<open>\<open>s.replace(/^-+|-+$/g, '')\<close>: the hyphens at the start and at the end go.\<close>

definition trimHyphens :: "string \<Rightarrow> string" where
  "trimHyphens s =
     rev (dropWhile (\<lambda>c. c = CHR ''-'') (rev (dropWhile (\<lambda>c. c = CHR ''-'') s)))"

text \<open>\<open>s.split('.')\<close> keeps the empty pieces: the empty string splits into one empty
  piece.\<close>

fun splitOn :: "char \<Rightarrow> string \<Rightarrow> string list" where
  "splitOn sep [] = [[]]"
| "splitOn sep (c # cs) =
     (if c = sep then [] # splitOn sep cs
      else (case splitOn sep cs of
              [] \<Rightarrow> [[c]]
            | w # ws \<Rightarrow> (c # w) # ws))"

fun joinWith :: "string \<Rightarrow> string list \<Rightarrow> string" where
  "joinWith sep [] = []"
| "joinWith sep [w] = w"
| "joinWith sep (w # v # ws) = w @ sep @ joinWith sep (v # ws)"

text \<open>\<open>s.trim()\<close> and \<open>s.includes(t)\<close> (\<open>strIncludes\<close>).\<close>

definition trim :: "string \<Rightarrow> string" where
  "trim s = rev (dropWhile isSpace (rev (dropWhile isSpace s)))"

fun strIncludes :: "string \<Rightarrow> string \<Rightarrow> bool" where
  "strIncludes [] t = (t = [])"
| "strIncludes (c # cs) t = (take (length t) (c # cs) = t \<or> strIncludes cs t)"

section \<open>The slugifier\<close>

definition slugify :: "string \<Rightarrow> string" where
  "slugify txt =
     joinWith ''.''
       (take 3
         (splitOn (CHR ''.'')
           (trimHyphens
             (replaceRuns (\<lambda>c. isSpace c \<or> c = CHR ''_'' \<or> c = CHR ''-'')
               (filter (\<lambda>c. isWordChar c \<or> isSpace c \<or> c = CHR ''-'')
                 (toLowerCase txt))))))"

section \<open>The scene graph\<close>

text \<open>
  The host's document is a tree of nodes. A node has an id (assigned by the host, unique
  in the document), a name, a visibility flag and its plugin data: a store of strings
  under string keys, where \<open>getPluginData\<close> answers the empty string for a key never
  set. A text node has its characters and its font; a node of a container type has
  children; every other node (a rectangle, a vector) has neither.
\<close>

type_synonym nid = nat

datatype fontName = Mixed | FontName string string

record attrs =
  nodeId :: nid
  name :: string
  visible :: bool
  pluginData :: "string \<Rightarrow> string"

datatype ctype = PAGE | FRAME | COMPONENT | INSTANCE | GROUP | SECTION

datatype node =
    TextNode attrs string fontName
  | LeafNode attrs
  | ParentNode ctype attrs "node list"

fun attrsOf :: "node \<Rightarrow> attrs" where
  "attrsOf (TextNode a c f) = a"
| "attrsOf (LeafNode a) = a"
| "attrsOf (ParentNode k a ks) = a"

definition idOf :: "node \<Rightarrow> nid" where
  "idOf n = nodeId (attrsOf n)"

fun childrenOf :: "node \<Rightarrow> node list" where
  "childrenOf (ParentNode k a ks) = ks"
| "childrenOf n = []"

fun charactersOf :: "node \<Rightarrow> string" where
  "charactersOf (TextNode a c f) = c"
| "charactersOf n = []"

fun isBoundary :: "node \<Rightarrow> bool" where
  "isBoundary (ParentNode k a ks) = (k = FRAME \<or> k = COMPONENT \<or> k = INSTANCE)"
| "isBoundary n = False"

fun isPage :: "node \<Rightarrow> bool" where
  "isPage (ParentNode k a ks) = (k = PAGE)"
| "isPage n = False"

fun firstSome :: "'a option list \<Rightarrow> 'a option" where
  "firstSome [] = None"
| "firstSome (None # xs) = firstSome xs"
| "firstSome (Some x # xs) = Some x"

text \<open>\<open>figma.getNodeByIdAsync(id)\<close>, resolved on the current page: the node with
  that id, the page node included; \<open>None\<close> is the host's null.\<close>

fun getNodeById :: "nid \<Rightarrow> node \<Rightarrow> node option" where
  "getNodeById i (TextNode a c f) = (if nodeId a = i then Some (TextNode a c f) else None)"
| "getNodeById i (LeafNode a) = (if nodeId a = i then Some (LeafNode a) else None)"
| "getNodeById i (ParentNode k a ks) =
     (if nodeId a = i then Some (ParentNode k a ks)
      else firstSome (map (getNodeById i) ks))"

text \<open>A scene node is a node below the page node: what a selection can hold.\<close>

definition sceneNodeById :: "nid \<Rightarrow> node \<Rightarrow> node option" where
  "sceneNodeById i pg = firstSome (map (getNodeById i) (childrenOf pg))"

text \<open>The chain \<open>node.parent\<close>, \<open>node.parent.parent\<close>, ... of the node with the
  given id, the nearest parent first, up to the page node.\<close>

fun parentChain :: "nid \<Rightarrow> node \<Rightarrow> node list option" where
  "parentChain i (TextNode a c f) = (if nodeId a = i then Some [] else None)"
| "parentChain i (LeafNode a) = (if nodeId a = i then Some [] else None)"
| "parentChain i (ParentNode k a ks) =
     (if nodeId a = i then Some []
      else (case firstSome (map (parentChain i) ks) of
              None \<Rightarrow> None
            | Some chain \<Rightarrow> Some (chain @ [ParentNode k a ks])))"

definition parentsOf :: "nid \<Rightarrow> node \<Rightarrow> node list" where
  "parentsOf i pg = (case parentChain i pg of None \<Rightarrow> [] | Some chain \<Rightarrow> chain)"

text \<open>
  A write to the node object with the given id: the attributes go through \<open>g\<close>, the
  characters of a text node through \<open>h\<close>, and every node keeps its place in the tree.
\<close>

fun updateNode :: "nid \<Rightarrow> (attrs \<Rightarrow> attrs) \<Rightarrow> (string \<Rightarrow> string) \<Rightarrow> node \<Rightarrow> node" where
  "updateNode i g h (TextNode a c f) =
     (if nodeId a = i then TextNode (g a) (h c) f else TextNode a c f)"
| "updateNode i g h (LeafNode a) = (if nodeId a = i then LeafNode (g a) else LeafNode a)"
| "updateNode i g h (ParentNode k a ks) =
     ParentNode k (if nodeId a = i then g a else a) (map (updateNode i g h) ks)"

definition withPluginData :: "string \<Rightarrow> string \<Rightarrow> attrs \<Rightarrow> attrs" where
  "withPluginData key v a = a\<lparr>pluginData := (pluginData a)(key := v)\<rparr>"

definition setPluginData :: "nid \<Rightarrow> string \<Rightarrow> string \<Rightarrow> node \<Rightarrow> node" where
  "setPluginData i key v pg = updateNode i (withPluginData key v) (\<lambda>c. c) pg"

definition setCharacters :: "nid \<Rightarrow> string \<Rightarrow> node \<Rightarrow> node" where
  "setCharacters i v pg = updateNode i (\<lambda>a. a) (\<lambda>c. v) pg"

definition getPluginData :: "node \<Rightarrow> nid \<Rightarrow> string \<Rightarrow> string" where
  "getPluginData pg i key =
     (case getNodeById i pg of None \<Rightarrow> [] | Some n \<Rightarrow> pluginData (attrsOf n) key)"


section \<open>The classifiers\<close>

text \<open>\<open>getContext\<close>: the loop stops at the nearest frame, component or instance
  above the node, or runs out of parents.\<close>

fun contextParent :: "node list \<Rightarrow> node option" where
  "contextParent [] = None"
| "contextParent (p # ps) = (if isBoundary p then Some p else contextParent ps)"

definition getContext :: "node list \<Rightarrow> string" where
  "getContext chain =
     (let parentName =
            (case contextParent chain of
               None \<Rightarrow> ''global''
             | Some p \<Rightarrow> toLowerCase (name (attrsOf p)))
      in if strIncludes parentName ''button'' then ''button''
         else if strIncludes parentName ''header'' \<or> strIncludes parentName ''title''
           then ''heading''
         else if strIncludes parentName ''label'' then ''label''
         else if strIncludes parentName ''input'' \<or> strIncludes parentName ''text field''
           then ''input''
         else if strIncludes parentName ''helper'' \<or> strIncludes parentName ''hint''
           then ''helper''
         else ''text'')"

text \<open>\<open>getScreenName\<close>: the loop climbs to the page node (or out of parents) and
  keeps in \<open>lastFrame\<close> the name of the last frame, component or instance it met.\<close>

fun screenLoop :: "node list \<Rightarrow> string \<Rightarrow> string" where
  "screenLoop [] lastFrame = lastFrame"
| "screenLoop (p # ps) lastFrame =
     (if isPage p then lastFrame
      else screenLoop ps (if isBoundary p then name (attrsOf p) else lastFrame))"

definition getScreenName :: "node list \<Rightarrow> string" where
  "getScreenName chain = replaceRuns isSpace (toLowerCase (screenLoop chain ''general''))"

section \<open>The plugin's state\<close>

text \<open>
  The state is what the handlers read and write: the current page, the selection (node
  references, held as ids), the host's font loader (\<open>fontError f = Some m\<close> when
  \<open>loadFontAsync f\<close> rejects with message \<open>m\<close>), and the two logs of what the plugin
  shows: the notifications (text, error flag) and the messages posted to the panel.
  Geometry and the viewport are the host's and are left out. A handler is run from its
  start to its end: the interleaving of two handlers at an await is not modelled.
\<close>

record scanResult =
  resId :: nid
  resText :: string
  resKey :: string
  resContext :: string
  resTranslations :: "(string \<times> string) list"
  resManualFlags :: "string list"

datatype uiMessage = ScanResults "scanResult list" | ApplyComplete | ApplyError string

record state =
  page :: node
  selection :: "nid list"
  fontError :: "fontName \<Rightarrow> string option"
  notifications :: "(string \<times> bool) list"
  posted :: "uiMessage list"

record item =
  itemId :: nid
  translatedText :: string

definition notify :: "string \<Rightarrow> bool \<Rightarrow> state \<Rightarrow> state" where
  "notify m isError s = s\<lparr>notifications := notifications s @ [(m, isError)]\<rparr>"

definition postMessage :: "uiMessage \<Rightarrow> state \<Rightarrow> state" where
  "postMessage m s = s\<lparr>posted := posted s @ [m]\<rparr>"

definition languages :: "string list" where
  "languages = [''fr'', ''de'', ''hi'', ''es'']"


section \<open>scan\<close>

fun traverse :: "node \<Rightarrow> nid list" where
  "traverse (TextNode a c f) = (if visible a then [nodeId a] else [])"
| "traverse (LeafNode a) = []"
| "traverse (ParentNode k a ks) = (if visible a then concat (map traverse ks) else [])"

text \<open>One turn of the loop over the collected text nodes. Font loading before the loop
  is best effort and changes nothing the model holds.\<close>

definition scanNode :: "nid \<Rightarrow> node \<times> scanResult list \<Rightarrow> node \<times> scanResult list" where
  "scanNode i acc =
     (case acc of (pg, results) \<Rightarrow>
      (case getNodeById i pg of
         Some (TextNode a originalText f) \<Rightarrow>
           if originalText = [] \<or> trim originalText = [] then (pg, results)
           else
             (let ctx = getContext (parentsOf i pg);
                  screen = getScreenName (parentsOf i pg);
                  slug = slugify originalText;
                  key = screen @ ''.'' @ ctx @ ''.'' @ slug;
                  pg1 = (if pluginData a ''originalText'' = []
                         then setPluginData i ''originalText'' originalText pg else pg);
                  pg2 = setPluginData i ''nodeKey'' key pg1;
                  storedTranslations =
                    map (\<lambda>lang. (lang, getPluginData pg2 i (''translation-'' @ lang)))
                      (filter (\<lambda>lang. getPluginData pg2 i (''translation-'' @ lang) \<noteq> [])
                         languages);
                  manualFlags =
                    filter (\<lambda>lang. getPluginData pg2 i (''isManual-'' @ lang) = ''true'')
                      languages
              in (pg2, results @ [\<lparr>resId = i, resText = originalText, resKey = key,
                                    resContext = ctx, resTranslations = storedTranslations,
                                    resManualFlags = manualFlags\<rparr>]))
       | _ \<Rightarrow> (pg, results)))"

definition scanRoots :: "state \<Rightarrow> node list" where
  "scanRoots s =
     (if selection s \<noteq> []
      then List.map_filter (\<lambda>e. sceneNodeById e (page s)) (selection s)
      else childrenOf (page s))"

definition scanTargets :: "state \<Rightarrow> nid list" where
  "scanTargets s = concat (map traverse (scanRoots s))"

definition scanSelection :: "state \<Rightarrow> state" where
  "scanSelection s =
     (let textNodes = scanTargets s;
          r = foldl (\<lambda>acc i. scanNode i acc) (page s, []) textNodes
      in postMessage (ScanResults (snd r)) (s\<lparr>page := fst r\<rparr>))"

section \<open>preview and revert\<close>






section \<open>The metadata writes\<close>




definition handleUpdateManualTranslation :: "nid \<Rightarrow> string \<Rightarrow> string \<Rightarrow> state \<Rightarrow> state" where
  "handleUpdateManualTranslation i lang txt s =
     (case getNodeById i (page s) of
        None \<Rightarrow> s
      | Some n \<Rightarrow>
          s\<lparr>page := setPluginData i (''isManual-'' @ lang) ''true''
                      (setPluginData i (''translation-'' @ lang) txt (page s))\<rparr>)"

definition clearLang :: "string \<Rightarrow> attrs \<Rightarrow> attrs" where
  "clearLang lang a =
     withPluginData (''isManual-'' @ lang) [] (withPluginData (''translation-'' @ lang) [] a)"

definition clearAttrs :: "attrs \<Rightarrow> attrs" where
  "clearAttrs a =
     fold clearLang languages
       (withPluginData ''nodeKey'' [] (withPluginData ''originalText'' [] a))"

fun clearNode :: "node \<Rightarrow> node" where
  "clearNode (TextNode a c f) = TextNode (clearAttrs a) c f"
| "clearNode (LeafNode a) = LeafNode (clearAttrs a)"
| "clearNode (ParentNode k a ks) = ParentNode k (clearAttrs a) (map clearNode ks)"

fun clearChildren :: "node \<Rightarrow> node" where
  "clearChildren (ParentNode k a ks) = ParentNode k a (map clearNode ks)"
| "clearChildren n = n"

definition handleClearStorage :: "state \<Rightarrow> state" where
  "handleClearStorage s =
     notify ''All plugin data cleared from design!'' False
       ((notify ''Cleaning up all design metadata...'' False s)
          \<lparr>page := clearChildren (page s)\<rparr>)"

section \<open>apply\<close>

text \<open>
  The host's \<open>clone()\<close> copies a subtree with all it holds (names, plugin data, text)
  under ids of the host's choice that no node has yet. The model adds to every id of
  the subtree one more than the largest id of the page.
\<close>

fun ids :: "node \<Rightarrow> nid list" where
  "ids (TextNode a c f) = [nodeId a]"
| "ids (LeafNode a) = [nodeId a]"
| "ids (ParentNode k a ks) = nodeId a # concat (map ids ks)"

definition freshBase :: "node \<Rightarrow> nat" where
  "freshBase pg = Suc (foldr max (ids pg) 0)"

fun shiftIds :: "nat \<Rightarrow> node \<Rightarrow> node" where
  "shiftIds b (TextNode a c f) = TextNode (a\<lparr>nodeId := nodeId a + b\<rparr>) c f"
| "shiftIds b (LeafNode a) = LeafNode (a\<lparr>nodeId := nodeId a + b\<rparr>)"
| "shiftIds b (ParentNode k a ks) =
     ParentNode k (a\<lparr>nodeId := nodeId a + b\<rparr>) (map (shiftIds b) ks)"

definition clone :: "node \<Rightarrow> node \<Rightarrow> node" where
  "clone pg n = shiftIds (freshBase pg) n"

fun withName :: "string \<Rightarrow> node \<Rightarrow> node" where
  "withName v (TextNode a c f) = TextNode (a\<lparr>name := v\<rparr>) c f"
| "withName v (LeafNode a) = LeafNode (a\<lparr>name := v\<rparr>)"
| "withName v (ParentNode k a ks) = ParentNode k (a\<lparr>name := v\<rparr>) ks"

text \<open>The clone of a selected node under its new name.\<close>

definition cloneFor :: "string \<Rightarrow> node \<Rightarrow> node \<Rightarrow> node" where
  "cloneFor language pg nodeToClone =
     withName (name (attrsOf nodeToClone) @ '' ('' @ toUpperCase language @ '')'')
       (clone pg nodeToClone)"

text \<open>\<open>nodeToClone.parent.appendChild(c)\<close>: \<open>c\<close> becomes the last child of the
  node that has the node with id \<open>e\<close> among its children.\<close>

fun appendChildOf :: "nid \<Rightarrow> node \<Rightarrow> node \<Rightarrow> node" where
  "appendChildOf e c (ParentNode k a ks) =
     (if e \<in> set (map idOf ks) then ParentNode k a (ks @ [c])
      else ParentNode k a (map (appendChildOf e c) ks))"
| "appendChildOf e c n = n"

text \<open>\<open>n.findAll(m => m.type === 'TEXT')\<close>: the text nodes below \<open>n\<close>, in document
  order.\<close>

fun textIds :: "node \<Rightarrow> nid list" where
  "textIds (TextNode a c f) = [nodeId a]"
| "textIds (LeafNode a) = []"
| "textIds (ParentNode k a ks) = concat (map textIds ks)"

fun cloneTextNodes :: "node \<Rightarrow> nid list" where
  "cloneTextNodes (ParentNode k a ks) = concat (map textIds ks)"
| "cloneTextNodes (TextNode a c f) = [nodeId a]"
| "cloneTextNodes (LeafNode a) = []"

text \<open>The inner loop over the translation items: the first item whose id resolves to a
  node with the given \<open>nodeKey\<close>.\<close>

fun findTranslation :: "node \<Rightarrow> string \<Rightarrow> item list \<Rightarrow> item option" where
  "findTranslation pg nodeKey [] = None"
| "findTranslation pg nodeKey (t # ts) =
     (case getNodeById (itemId t) pg of
        None \<Rightarrow> findTranslation pg nodeKey ts
      | Some originalNode \<Rightarrow>
          if pluginData (attrsOf originalNode) ''nodeKey'' = nodeKey then Some t
          else findTranslation pg nodeKey ts)"

text \<open>One turn of the loop over the text nodes of a clone, and the loop: a rejected
  font load ends it.\<close>

definition relinkNode ::
  "(fontName \<Rightarrow> string option) \<Rightarrow> item list \<Rightarrow> string \<Rightarrow> nid \<Rightarrow> node \<Rightarrow>
     (string \<times> node) + node" where
  "relinkNode fe translations language d pg =
     (case getNodeById d pg of
        Some (TextNode a c f) \<Rightarrow>
          (let nodeKey = pluginData a ''nodeKey''
           in if nodeKey = [] then Inr pg
              else (case findTranslation pg nodeKey translations of
                      None \<Rightarrow> Inr pg
                    | Some t \<Rightarrow>
                        (case fe f of
                           Some m \<Rightarrow> Inl (m, pg)
                         | None \<Rightarrow>
                             Inr (setPluginData d (''translation-'' @ language) (translatedText t)
                                    (setCharacters d (translatedText t) pg)))))
      | _ \<Rightarrow> Inr pg)"

fun relink ::
  "(fontName \<Rightarrow> string option) \<Rightarrow> item list \<Rightarrow> string \<Rightarrow> nid list \<Rightarrow> node \<Rightarrow>
     (string \<times> node) + node" where
  "relink fe translations language [] pg = Inr pg"
| "relink fe translations language (d # rest) pg =
     (case relinkNode fe translations language d pg of
        Inl err \<Rightarrow> Inl err
      | Inr pg1 \<Rightarrow> relink fe translations language rest pg1)"

text \<open>The loop over the selection. A selection holds scene nodes of the page; an id
  that is none is passed over.\<close>

fun applyLoop ::
  "(fontName \<Rightarrow> string option) \<Rightarrow> item list \<Rightarrow> string \<Rightarrow> nid list \<Rightarrow> node \<Rightarrow> nid list \<Rightarrow>
     (string \<times> node) + (node \<times> nid list)" where
  "applyLoop fe translations language [] pg clones = Inr (pg, clones)"
| "applyLoop fe translations language (e # rest) pg clones =
     (case sceneNodeById e pg of
        None \<Rightarrow> applyLoop fe translations language rest pg clones
      | Some nodeToClone \<Rightarrow>
          (let c = cloneFor language pg nodeToClone;
               pg1 = appendChildOf e c pg
           in (case relink fe translations language (cloneTextNodes c) pg1 of
                 Inl err \<Rightarrow> Inl err
               | Inr pg2 \<Rightarrow> applyLoop fe translations language rest pg2 (clones @ [idOf c]))))"

definition handleApplyTranslation :: "item list \<Rightarrow> string \<Rightarrow> state \<Rightarrow> state" where
  "handleApplyTranslation translations language s =
     (if selection s = [] then notify ''Please select elements to duplicate.'' True s
      else
        (let s1 = notify (''Creating '' @ toUpperCase language @ '' copy...'') False s
         in (case applyLoop (fontError s) translations language (selection s) (page s) [] of
               Inr (pg, clones) \<Rightarrow>
                 postMessage ApplyComplete
                   (notify (toUpperCase language @ '' copies generated!'') False
                      (s1\<lparr>page := pg, selection := clones\<rparr>))
             | Inl (m, pg) \<Rightarrow>
                 postMessage (ApplyError m)
                   (notify (''Error: '' @ m) True (s1\<lparr>page := pg\<rparr>)))))"

section \<open>The dispatcher\<close>



section \<open>Notions the properties are stated with\<close>

text \<open>The nodes of a subtree, the root first, in document order; the elements of the
  page are the nodes below the page node.\<close>

fun nodesOf :: "node \<Rightarrow> node list" where
  "nodesOf (TextNode a c f) = [TextNode a c f]"
| "nodesOf (LeafNode a) = [LeafNode a]"
| "nodesOf (ParentNode k a ks) = ParentNode k a ks # concat (map nodesOf ks)"

definition elements :: "node \<Rightarrow> node list" where
  "elements pg = concat (map nodesOf (childrenOf pg))"



















text \<open>An element whose metadata is unset: the original text, the key, and for each of
  the four languages the translation and the manual flag are the empty string.\<close>

definition cleared :: "node \<Rightarrow> bool" where
  "cleared n =
     (pluginData (attrsOf n) ''originalText'' = [] \<and>
      pluginData (attrsOf n) ''nodeKey'' = [] \<and>
      (\<forall>lang\<in>set languages.
         pluginData (attrsOf n) (''translation-'' @ lang) = [] \<and>
         pluginData (attrsOf n) (''isManual-'' @ lang) = []))"

text \<open>The screen name as the specification words it: of the parents below the page
  node, the outermost frame, component or instance gives the name.\<close>

definition outermostBoundary :: "node list \<Rightarrow> node option" where
  "outermostBoundary chain =
     (case rev (filter isBoundary (takeWhile (\<lambda>p. \<not> isPage p) chain)) of
        [] \<Rightarrow> None
      | p # ps \<Rightarrow> Some p)"

definition screenNameSpec :: "node list \<Rightarrow> string" where
  "screenNameSpec chain =
     (case outermostBoundary chain of
        None \<Rightarrow> ''general''
      | Some p \<Rightarrow> replaceRuns isSpace (toLowerCase (name (attrsOf p))))"

section \<open>A small document\<close>

text \<open>A page with the frame Home Screen; in it the frame Submit Button, which holds
  two texts Submit, and beside that frame the text Welcome back.\<close>

definition plainAttrs :: "nid \<Rightarrow> string \<Rightarrow> attrs" where
  "plainAttrs i nm = \<lparr>nodeId = i, name = nm, visible = True, pluginData = (\<lambda>k. [])\<rparr>"

definition demoPage :: node where
  "demoPage =
     ParentNode PAGE (plainAttrs 0 ''Page 1'')
       [ParentNode FRAME (plainAttrs 1 ''Home Screen'')
          [ParentNode FRAME (plainAttrs 2 ''Submit Button'')
             [TextNode (plainAttrs 3 ''label'') ''Submit'' (FontName ''Inter'' ''Regular''),
              TextNode (plainAttrs 4 ''label 2'') ''Submit'' (FontName ''Inter'' ''Regular'')],
           TextNode (plainAttrs 5 ''greeting'') ''Welcome back'' (FontName ''Inter'' ''Bold'')]]"

definition demoState :: state where
  "demoState =
     \<lparr>page = demoPage, selection = [], fontError = (\<lambda>f. None), notifications = [],
      posted = []\<rparr>"

text \<open>Translation items: two for the texts Submit (which share a key), one for the
  greeting.\<close>

definition demoItems :: "item list" where
  "demoItems =
     [\<lparr>itemId = 4, translatedText = ''Soumettre''\<rparr>, \<lparr>itemId = 3, translatedText = ''Envoyer''\<rparr>]"


text \<open>The document after a scan and a manual French translation of the first text;
  the scanned document with the frame Home Screen selected; the scanned document under
  a preview.\<close>

definition demoTagged :: state where
  "demoTagged = handleUpdateManualTranslation 3 ''fr'' ''Envoyer'' (scanSelection demoState)"



section \<open>The slugifier (C5)\<close>

lemma slugify_example: "slugify ''Hello, World! This is a test'' = ''hello.world.this''"
  by code_simp

text \<open>
  C5. The slug of a text is claimed never to start with a dot and never to hold an empty
  segment. The step that should trim the dots trims hyphens, and by then every hyphen
  is a dot: the slug of a text with a leading space starts with a dot, before an empty
  first segment.
\<close>

theorem slugify_leading_space: "slugify '' hello'' = ''.hello''"
  by code_simp

section \<open>apply on an empty selection (C8, C9)\<close>

text \<open>
  C8. With an empty selection, apply raises the error notification and returns: the
  page, the selection and the posted messages are as before, no clone is made, no text
  and no plugin data is written.
\<close>

theorem apply_empty_selection:
  assumes "selection s = []"
  shows "handleApplyTranslation translations language s =
           s\<lparr>notifications := notifications s @ [(''Please select elements to duplicate.'', True)]\<rparr>"
  using assms by (simp add: handleApplyTranslation_def notify_def)

theorem apply_empty_selection_witness:
  "selection demoState = [] \<and>
   page (handleApplyTranslation demoItems ''fr'' demoState) = page demoState \<and>
   selection (handleApplyTranslation demoItems ''fr'' demoState) = [] \<and>
   posted (handleApplyTranslation demoItems ''fr'' demoState) = [] \<and>
   notifications (handleApplyTranslation demoItems ''fr'' demoState) =
     [(''Please select elements to duplicate.'', True)]"
proof -
  have h: "selection demoState = []" by (simp add: demoState_def)
  show ?thesis
    using h apply_empty_selection [OF h, of demoItems "''fr''"] by (simp add: demoState_def)
qed

text \<open>
  C9, as claimed: every apply-translation command, the one on an empty selection
  included, posts apply-complete or apply-error. On the empty selection of the small
  document nothing is posted.
\<close>

theorem apply_empty_selection_posts_nothing:
  "selection demoState = [] \<and> posted demoState = [] \<and>
   posted (handleApplyTranslation demoItems ''fr'' demoState) = []"
  by (simp add: handleApplyTranslation_def notify_def demoState_def)

text \<open>
  C9, amended: on a non-empty selection apply posts exactly one message, apply-complete
  or apply-error with the error's message; on an empty selection it posts nothing (the
  user sees the notification only).
\<close>

theorem apply_response:
  "(selection s \<noteq> [] \<longrightarrow>
      posted (handleApplyTranslation translations language s) = posted s @ [ApplyComplete] \<or>
      (\<exists>m. posted (handleApplyTranslation translations language s) = posted s @ [ApplyError m])) \<and>
   (selection s = [] \<longrightarrow> posted (handleApplyTranslation translations language s) = posted s)"
  by (auto simp: handleApplyTranslation_def notify_def postMessage_def Let_def
           split: sum.splits prod.splits)

theorem apply_response_witness:
  "selection (demoState\<lparr>selection := [1]\<rparr>) \<noteq> [] \<and>
   posted (handleApplyTranslation demoItems ''fr'' (demoState\<lparr>selection := [1]\<rparr>)) =
     [ApplyComplete] \<and>
   selection demoState = [] \<and>
   posted (handleApplyTranslation demoItems ''fr'' demoState) = []"
proof -
  have a: "selection (demoState\<lparr>selection := [1]\<rparr>) \<noteq> []" by simp
  have b: "selection demoState = []" by (simp add: demoState_def)
  have c: "posted (demoState\<lparr>selection := [1]\<rparr>) = []" "posted demoState = []"
    by (simp_all add: demoState_def)
  have d: "\<And>m. posted (handleApplyTranslation demoItems ''fr'' (demoState\<lparr>selection := [1]\<rparr>))
             \<noteq> [ApplyError m]"
    by code_simp
  from apply_response [of "demoState\<lparr>selection := [1]\<rparr>" demoItems "''fr''"]
       apply_response [of demoState demoItems "''fr''"] a b c d
  show ?thesis by auto
qed

section \<open>The screen name (C6)\<close>

lemma screenLoop_spec:
  "screenLoop chain lastFrame =
     (case rev (filter isBoundary (takeWhile (\<lambda>p. \<not> isPage p) chain)) of
        [] \<Rightarrow> lastFrame
      | p # ps \<Rightarrow> name (attrsOf p))"
proof (induction chain arbitrary: lastFrame)
  case Nil
  show ?case by simp
next
  case (Cons p ps)
  show ?case
    by (cases "isPage p") (auto simp: Cons.IH split: list.splits)
qed

lemma general_normal: "replaceRuns isSpace (toLowerCase ''general'') = ''general''"
  by code_simp

lemma isBoundary_not_page: "isBoundary p \<Longrightarrow> \<not> isPage p"
  by (cases p) auto

lemma takeWhile_not_page:
  assumes "\<forall>p\<in>set nearer. \<not> isPage p" and "isBoundary outer"
  shows "takeWhile (\<lambda>p. \<not> isPage p) (nearer @ outer # farther) =
           nearer @ outer # takeWhile (\<lambda>p. \<not> isPage p) farther"
  using assms by (simp add: takeWhile_append2 isBoundary_not_page)

text \<open>
  C6. The screen name of a text element is the name, in lower case and with each run of
  white space turned into a dot, of the outermost frame, component or instance among
  its parents below the page node, and \<open>general\<close> when there is none. With a frame,
  component or instance \<open>outer\<close> that has none above it, the name is \<open>outer\<close>'s,
  whatever containers lie between it and the element.
\<close>

theorem getScreenName_outermost:
  "getScreenName chain = screenNameSpec chain \<and>
   (isBoundary outer \<and> (\<forall>p\<in>set nearer. \<not> isPage p) \<and> (\<forall>p\<in>set farther. \<not> isBoundary p) \<longrightarrow>
      getScreenName (nearer @ outer # farther) =
        replaceRuns isSpace (toLowerCase (name (attrsOf outer))))"
proof (intro conjI impI)
  show "getScreenName chain = screenNameSpec chain"
    by (simp add: getScreenName_def screenNameSpec_def outermostBoundary_def screenLoop_spec
        general_normal split: list.splits)
next
  assume h: "isBoundary outer \<and> (\<forall>p\<in>set nearer. \<not> isPage p) \<and> (\<forall>p\<in>set farther. \<not> isBoundary p)"
  then have none: "filter isBoundary (takeWhile (\<lambda>p. \<not> isPage p) farther) = []"
    by (auto simp: filter_empty_conv dest: set_takeWhileD)
  from h have tw: "takeWhile (\<lambda>p. \<not> isPage p) (nearer @ outer # farther) =
           nearer @ outer # takeWhile (\<lambda>p. \<not> isPage p) farther"
    by (intro takeWhile_not_page) auto
  from h show "getScreenName (nearer @ outer # farther) =
        replaceRuns isSpace (toLowerCase (name (attrsOf outer)))"
    by (simp add: getScreenName_def screenLoop_spec tw none)
qed

theorem getScreenName_outermost_witness:
  "parentsOf 3 demoPage =
     [hd (childrenOf (hd (childrenOf demoPage)))] @ hd (childrenOf demoPage) # [demoPage] \<and>
   isBoundary (hd (childrenOf (hd (childrenOf demoPage)))) \<and>
   isBoundary (hd (childrenOf demoPage)) \<and>
   getScreenName (parentsOf 3 demoPage) = ''home.screen''"
proof -
  let ?nearer = "[hd (childrenOf (hd (childrenOf demoPage)))]"
  let ?outer = "hd (childrenOf demoPage)"
  have chain: "parentsOf 3 demoPage = ?nearer @ ?outer # [demoPage]"
    by (simp add: parentsOf_def demoPage_def plainAttrs_def)
  have h: "isBoundary ?outer \<and> (\<forall>p\<in>set ?nearer. \<not> isPage p) \<and>
           (\<forall>p\<in>set [demoPage]. \<not> isBoundary p)"
    by (simp add: demoPage_def)
  have b: "isBoundary (hd (childrenOf (hd (childrenOf demoPage))))"
    by (simp add: demoPage_def)
  have nm: "replaceRuns isSpace (toLowerCase (name (attrsOf ?outer))) = ''home.screen''"
    by code_simp
  from getScreenName_outermost [of "[]" ?outer ?nearer "[demoPage]"] h b chain nm
  show ?thesis by simp
qed

section \<open>clearStorage (C4)\<close>

lemma pluginData_clearLang:
  "pluginData (clearLang lang a) key =
     (if key = ''isManual-'' @ lang \<or> key = ''translation-'' @ lang then [] else pluginData a key)"
  by (simp add: clearLang_def withPluginData_def)

lemma pluginData_fold_clearLang:
  "pluginData (fold clearLang langs a) key =
     (if \<exists>lang\<in>set langs. key = ''isManual-'' @ lang \<or> key = ''translation-'' @ lang
      then [] else pluginData a key)"
  by (induction langs arbitrary: a) (auto simp: pluginData_clearLang)

lemma pluginData_clearAttrs:
  "pluginData (clearAttrs a) key =
     (if key = ''originalText'' \<or> key = ''nodeKey'' \<or>
         (\<exists>lang\<in>set languages. key = ''isManual-'' @ lang \<or> key = ''translation-'' @ lang)
      then [] else pluginData a key)"
  by (simp add: clearAttrs_def pluginData_fold_clearLang withPluginData_def)

lemma clearAttrs_rest:
  "nodeId (clearAttrs a) = nodeId a \<and> name (clearAttrs a) = name a \<and> visible (clearAttrs a) = visible a"
proof -
  have "\<And>a. nodeId (fold clearLang langs a) = nodeId a \<and> name (fold clearLang langs a) = name a
      \<and> visible (fold clearLang langs a) = visible a" for langs
    by (induction langs) (auto simp: clearLang_def withPluginData_def)
  then show ?thesis by (simp add: clearAttrs_def withPluginData_def)
qed

lemma attrsOf_clearNode: "attrsOf (clearNode n) = clearAttrs (attrsOf n)"
  by (cases n) auto

lemma charactersOf_clearNode: "charactersOf (clearNode n) = charactersOf n"
  by (cases n) auto

lemma nodesOf_clearNode: "nodesOf (clearNode n) = map clearNode (nodesOf n)"
  by (induction n) (auto simp: map_concat comp_def intro: arg_cong [where f = concat])

lemma cleared_clearNode: "cleared (clearNode n)"
  by (simp add: cleared_def attrsOf_clearNode pluginData_clearAttrs)

lemma elements_clearChildren: "elements (clearChildren pg) = map clearNode (elements pg)"
  by (cases pg) (simp_all add: elements_def map_concat comp_def nodesOf_clearNode)

text \<open>
  C4. After clearStorage every element below the page node, visible or not, has its
  original text, its key and, for each of fr, de, hi and es, its translation and its
  manual flag unset. The elements are the same, with the same characters and
  visibility, and the selection has no part in the result.
\<close>

theorem clearStorage_wipes:
  "(\<forall>n\<in>set (elements (page (handleClearStorage s))). cleared n) \<and>
   map idOf (elements (page (handleClearStorage s))) = map idOf (elements (page s)) \<and>
   map charactersOf (elements (page (handleClearStorage s))) = map charactersOf (elements (page s)) \<and>
   map (\<lambda>n. visible (attrsOf n)) (elements (page (handleClearStorage s))) =
     map (\<lambda>n. visible (attrsOf n)) (elements (page s)) \<and>
   page (handleClearStorage (s\<lparr>selection := sel\<rparr>)) = page (handleClearStorage s)"
  by (simp add: handleClearStorage_def notify_def elements_clearChildren cleared_clearNode
      idOf_def attrsOf_clearNode clearAttrs_rest charactersOf_clearNode comp_def)

theorem clearStorage_wipes_witness:
  "map idOf (elements (page (handleClearStorage demoTagged))) = [1, 2, 3, 4, 5] \<and>
   \<not> cleared (last (elements (page demoTagged))) \<and>
   cleared (last (elements (page (handleClearStorage demoTagged))))"
proof -
  have a: "map idOf (elements (page (handleClearStorage demoTagged))) = [1, 2, 3, 4, 5]"
    by code_simp
  then have "elements (page (handleClearStorage demoTagged)) \<noteq> []"
    by auto
  then have b: "last (elements (page (handleClearStorage demoTagged))) \<in>
                  set (elements (page (handleClearStorage demoTagged)))"
    by simp
  have c: "\<not> cleared (last (elements (page demoTagged)))"
    by code_simp
  from clearStorage_wipes [of demoTagged "[]"] a b c show ?thesis by blast
qed

section \<open>Reading and writing nodes by id\<close>



















subsection \<open>Writes by id\<close>















section \<open>The original text (C1)\<close>






















section \<open>apply: the tree after a clone is appended\<close>




subsection \<open>Appending a child\<close>










subsection \<open>Clones\<close>









section \<open>apply: what the duplicates hold (C3, C10)\<close>









subsection \<open>Relinking the text nodes of a clone\<close>















subsection \<open>The loop over the selection\<close>




















section \<open>The manual-override flag (C7)\<close>


















section \<open>revert (C2)\<close>
































end
